theory Spec2Isabelle
  imports Main
begin

section \<open>Higher order operators of \<open>functional_ops.py\<close>\<close>

text \<open>
  The module \<open>tensorflow/python/ops/functional_ops.py\<close> defines \<open>foldl\<close>, \<open>foldr\<close>,
  \<open>map_fn\<close> and \<open>scan\<close>. Each one unpacks its input tensor into a tensor array, runs
  \<open>control_flow_ops.While\<close> over an index and an accumulator, and returns the accumulator
  or the packed output array.

  The four combinators are translated from the source: \<open>foldl_op\<close>, \<open>foldr_op\<close>,
  \<open>map_fn\<close> and \<open>scan\<close> are the blocks of their \<open>with ops.op_scope\<close> statements, and
  \<open>foldl_scoped\<close>, \<open>foldr_scoped\<close>, \<open>map_fn_scoped\<close> and \<open>scan_scoped\<close> the whole
  functions. The tensor array (\<open>tensor_array_ops.TensorArray\<close>), the loop
  (\<open>control_flow_ops.While\<close>) and the name scope (\<open>ops.op_scope\<close>) are imported by the
  module and their code is not part of it; they are modelled from the specification
  (sections 4.1, 4.2 and 6).
\<close>

subsection \<open>Values\<close>

text \<open>
  A tensor is a scalar (rank 0) or the stack of its slices along the leading dimension.
  The element type of a tensor (its \<open>dtype\<close>) is the type parameter, so that every
  buffer holds values of one element type by typing.
\<close>

datatype 'a tensor = Scalar 'a | Stack "'a tensor list"

text \<open>
  The object passed as \<open>fn\<close>. Python accepts any object there; \<open>callable(fn)\<close> tells
  whether it can be applied at all, and applying a function to the wrong number of
  arguments raises \<open>TypeError\<close> at the call. The accumulator has the element type
  \<open>'b\<close>, the input slices have \<open>'a\<close>.
\<close>

datatype ('a, 'b) pyobj =
    NotCallable
  | Fn1 "'a tensor \<Rightarrow> 'b tensor"
  | Fn2 "'b tensor \<Rightarrow> 'a tensor \<Rightarrow> 'b tensor"

text \<open>
  \<open>NotCallableError\<close> is the \<open>TypeError("fn must be callable.")\<close> raised by the
  combinators; \<open>ArityError\<close> is the \<open>TypeError\<close> that Python raises when a callable is
  applied to the wrong number of arguments. \<open>WriteOnceError\<close> reports a second write to a
  slot of a buffer; the specification states the invariant (section 3) and names no
  error for its violation.
\<close>

datatype error =
  NotCallableError | ArityError | ShapeError | IndexError | IncompleteError | WriteOnceError

subsection \<open>Operations on the graph under construction\<close>

text \<open>
  Every operation on a buffer, every application of \<open>fn\<close> and the entry into the loop is
  recorded, in order, in a log. An operation takes the log and returns its result (or an
  error) with the extended log; a loop that does not terminate has no result (\<open>None\<close>).
  Entering and leaving a name scope is recorded as well.
\<close>

datatype event =
    Alloc int      \<comment> \<open>a tensor array of the given size is created\<close>
  | Unpack         \<comment> \<open>a tensor is unpacked into a tensor array\<close>
  | Read int       \<comment> \<open>a slot is read\<close>
  | Write int      \<comment> \<open>a slot is written\<close>
  | Call           \<comment> \<open>\<open>fn\<close> is applied\<close>
  | EnterWhile     \<comment> \<open>the loop is entered\<close>
  | Pack           \<comment> \<open>a tensor array is packed\<close>
  | EnterScope string  \<comment> \<open>a name scope is entered\<close>
  | ExitScope      \<comment> \<open>the innermost name scope is left\<close>

type_synonym 'a gm = "event list \<Rightarrow> ((error + 'a) \<times> event list) option"

definition return :: "'a \<Rightarrow> 'a gm" where
  "return x = (\<lambda>log. Some (Inr x, log))"

definition raise :: "error \<Rightarrow> 'a gm" where
  "raise e = (\<lambda>log. Some (Inl e, log))"

definition emit :: "event \<Rightarrow> unit gm" where
  "emit ev = (\<lambda>log. Some (Inr (), log @ [ev]))"

definition bind :: "'a gm \<Rightarrow> ('a \<Rightarrow> 'b gm) \<Rightarrow> 'b gm" where
  "bind m f = (\<lambda>log. case m log of
       None \<Rightarrow> None
     | Some (Inl e, log') \<Rightarrow> Some (Inl e, log')
     | Some (Inr x, log') \<Rightarrow> f x log')"

definition callable :: "('a, 'b) pyobj \<Rightarrow> bool" where
  "callable fn = (case fn of NotCallable \<Rightarrow> False | _ \<Rightarrow> True)"

text \<open>\<open>fn(x)\<close> and \<open>fn(a, x)\<close>.\<close>

definition call1 :: "('a, 'b) pyobj \<Rightarrow> 'a tensor \<Rightarrow> 'b tensor gm" where
  "call1 fn x = bind (emit Call) (\<lambda>_.
     case fn of Fn1 f \<Rightarrow> return (f x)
              | Fn2 f \<Rightarrow> raise ArityError
              | NotCallable \<Rightarrow> raise NotCallableError)"

definition call2 :: "('a, 'b) pyobj \<Rightarrow> 'b tensor \<Rightarrow> 'a tensor \<Rightarrow> 'b tensor gm" where
  "call2 fn a x = bind (emit Call) (\<lambda>_.
     case fn of Fn2 f \<Rightarrow> return (f a x)
              | Fn1 f \<Rightarrow> raise ArityError
              | NotCallable \<Rightarrow> raise NotCallableError)"

text \<open>
  Modelled from the spec: the size of the leading dimension, \<open>array_ops.shape(elems)[0]\<close>
  (\<open>array_ops\<close> is not part of the module). A value of rank 0 has no leading dimension.
\<close>

definition shape0 :: "'a tensor \<Rightarrow> int gm" where
  "shape0 v = (case v of Scalar c \<Rightarrow> raise ShapeError
                       | Stack vs \<Rightarrow> return (int (length vs)))"

subsection \<open>The tensor array\<close>

text \<open>
  Modelled from the spec: \<open>tensor_array_ops.TensorArray\<close>, the indexed sequence buffer of
  section 4.1. A buffer maps each index in \<open>[0, capacity)\<close> to a value or to nothing
  (unwritten); its capacity is the number of its slots. \<open>write\<close> returns a new buffer.
\<close>

record 'a tensor_array =
  dynamic_size :: bool
  slots :: "'a tensor option list"

definition capacity :: "'a tensor_array \<Rightarrow> int" where
  "capacity ta = int (length (slots ta))"

text \<open>Modelled from the spec: \<open>allocate\<close>, creating \<open>n\<close> empty slots (\<open>size=n\<close>).\<close>

definition TensorArray :: "int \<Rightarrow> bool \<Rightarrow> 'a tensor_array gm" where
  "TensorArray n dyn = bind (emit (Alloc n)) (\<lambda>_.
     return \<lparr>dynamic_size = dyn, slots = replicate (nat n) None\<rparr>)"

text \<open>
  Modelled from the spec: \<open>unpack\<close>. The capacity becomes the size of the leading
  dimension and slot \<open>i\<close> the \<open>i\<close>-th slice; a value of rank 0 is refused.
\<close>

definition unpack :: "'a tensor_array \<Rightarrow> 'a tensor \<Rightarrow> 'a tensor_array gm" where
  "unpack ta v = bind (emit Unpack) (\<lambda>_.
     case v of Scalar c \<Rightarrow> raise ShapeError
             | Stack vs \<Rightarrow> return (ta\<lparr>slots := map Some vs\<rparr>))"

text \<open>
  Modelled from the spec: \<open>read\<close>, which fails with \<open>IndexError\<close> when the index is
  outside \<open>[0, capacity)\<close> or the slot is unwritten.
\<close>

definition read :: "'a tensor_array \<Rightarrow> int \<Rightarrow> 'a tensor gm" where
  "read ta i = bind (emit (Read i)) (\<lambda>_.
     if 0 \<le> i \<and> i < capacity ta
     then (case slots ta ! nat i of None \<Rightarrow> raise IndexError | Some v \<Rightarrow> return v)
     else raise IndexError)"

text \<open>
  Modelled from the spec: \<open>write\<close>, which fails with \<open>IndexError\<close> when the index is out
  of range, unless the buffer is dynamic, in which case it grows. A slot is written at
  most once (the invariant of section 3): a write to a slot that holds a value fails.
  The element type of the value is that of the buffer by typing.
\<close>

definition "write" :: "'a tensor_array \<Rightarrow> int \<Rightarrow> 'a tensor \<Rightarrow> 'a tensor_array gm" where
  "write ta i v = bind (emit (Write i)) (\<lambda>_.
     if i < 0 then raise IndexError
     else if i < capacity ta
     then (case slots ta ! nat i of
             None \<Rightarrow> return (ta\<lparr>slots := (slots ta)[nat i := Some v]\<rparr>)
           | Some w \<Rightarrow> raise WriteOnceError)
     else if dynamic_size ta
     then return (ta\<lparr>slots := slots ta @ replicate (nat i - length (slots ta)) None @ [Some v]\<rparr>)
     else raise IndexError)"

text \<open>
  Modelled from the spec: \<open>pack\<close>, which stacks the slots in order and fails with
  \<open>IncompleteError\<close> when a slot is unwritten.
\<close>

definition pack :: "'a tensor_array \<Rightarrow> 'a tensor gm" where
  "pack ta = bind (emit Pack) (\<lambda>_.
     if list_all (\<lambda>s. s \<noteq> None) (slots ta) then return (Stack (map the (slots ta)))
     else raise IncompleteError)"

subsection \<open>The loop\<close>

text \<open>
  Modelled from the spec: \<open>control_flow_ops.While\<close>, the bounded iteration construct of
  section 4.2. The body is applied while the predicate holds; the result is the first
  tuple on which the predicate is false. \<open>parallel_iterations\<close>, \<open>back_prop\<close> and
  \<open>swap_memory\<close> configure scheduling, the reverse pass and storage.
\<close>

partial_function (option) iterate ::
  "('s \<Rightarrow> bool) \<Rightarrow> ('s \<Rightarrow> 's gm) \<Rightarrow> 's \<Rightarrow> event list \<Rightarrow> ((error + 's) \<times> event list) option"
where
  "iterate cond body loop_vars log =
     (if cond loop_vars
      then (case body loop_vars log of
              None \<Rightarrow> None
            | Some (Inl e, log') \<Rightarrow> Some (Inl e, log')
            | Some (Inr vars', log') \<Rightarrow> iterate cond body vars' log')
      else Some (Inr loop_vars, log))"

definition While ::
  "('s \<Rightarrow> bool) \<Rightarrow> ('s \<Rightarrow> 's gm) \<Rightarrow> 's \<Rightarrow> int \<Rightarrow> bool \<Rightarrow> bool \<Rightarrow> 's gm" where
  "While cond body loop_vars parallel_iterations back_prop swap_memory =
     bind (emit EnterWhile) (\<lambda>_. iterate cond body loop_vars)"

subsection \<open>foldl\<close>

definition foldl_compute ::
  "('a, 'a) pyobj \<Rightarrow> 'a tensor_array \<Rightarrow> int \<times> 'a tensor \<Rightarrow> (int \<times> 'a tensor) gm" where
  "foldl_compute fn elems_ta = (\<lambda>(i, a).
     bind (read elems_ta i) (\<lambda>x.
     bind (call2 fn a x) (\<lambda>a.
     return (i + 1, a))))"

definition foldl_op ::
  "('a, 'a) pyobj \<Rightarrow> 'a tensor \<Rightarrow> 'a tensor option \<Rightarrow> int \<Rightarrow> bool \<Rightarrow> bool \<Rightarrow> 'a tensor gm" where
  "foldl_op fn elems initializer parallel_iterations back_prop swap_memory =
     (if \<not> callable fn then raise NotCallableError
      else
        bind (shape0 elems) (\<lambda>n.
        bind (TensorArray n False) (\<lambda>elems_ta.
        bind (unpack elems_ta elems) (\<lambda>elems_ta.
        bind (case initializer of
                None \<Rightarrow> bind (read elems_ta 0) (\<lambda>a. return (a, 1))
              | Some v \<Rightarrow> return (v, 0)) (\<lambda>(a, i).
        bind (While (\<lambda>(i, a). i < n) (foldl_compute fn elems_ta) (i, a)
                parallel_iterations back_prop swap_memory) (\<lambda>(_, r_a).
        return r_a))))))"

subsection \<open>foldr\<close>

definition foldr_compute ::
  "('a, 'a) pyobj \<Rightarrow> 'a tensor_array \<Rightarrow> int \<times> 'a tensor \<Rightarrow> (int \<times> 'a tensor) gm" where
  "foldr_compute fn elems_ta = (\<lambda>(i, a).
     let i = i - 1 in
     bind (read elems_ta i) (\<lambda>x.
     bind (call2 fn a x) (\<lambda>a.
     return (i, a))))"

definition foldr_op ::
  "('a, 'a) pyobj \<Rightarrow> 'a tensor \<Rightarrow> 'a tensor option \<Rightarrow> int \<Rightarrow> bool \<Rightarrow> bool \<Rightarrow> 'a tensor gm" where
  "foldr_op fn elems initializer parallel_iterations back_prop swap_memory =
     (if \<not> callable fn then raise NotCallableError
      else
        bind (shape0 elems) (\<lambda>n.
        bind (TensorArray n False) (\<lambda>elems_ta.
        bind (unpack elems_ta elems) (\<lambda>elems_ta.
        bind (case initializer of
                None \<Rightarrow> (let i = n - 1 in bind (read elems_ta i) (\<lambda>a. return (i, a)))
              | Some v \<Rightarrow> return (n, v)) (\<lambda>(i, a).
        bind (While (\<lambda>(i, a). i > 0) (foldr_compute fn elems_ta) (i, a)
                parallel_iterations back_prop swap_memory) (\<lambda>(_, r_a).
        return r_a))))))"

subsection \<open>map\<close>

text \<open>
  The argument \<open>dtype\<close> of \<open>map_fn\<close>, the element type of the output buffer
  (\<open>dtype if dtype else elems.dtype\<close>), is the type \<open>'b\<close> of the results of \<open>fn\<close>.
\<close>

definition map_compute ::
  "('a, 'b) pyobj \<Rightarrow> 'a tensor_array \<Rightarrow> int \<times> 'b tensor_array \<Rightarrow> (int \<times> 'b tensor_array) gm"
  where
  "map_compute fn elems_ta = (\<lambda>(i, ta).
     bind (read elems_ta i) (\<lambda>x.
     bind (call1 fn x) (\<lambda>y.
     bind (write ta i y) (\<lambda>ta.
     return (i + 1, ta)))))"

definition map_fn ::
  "('a, 'b) pyobj \<Rightarrow> 'a tensor \<Rightarrow> int \<Rightarrow> bool \<Rightarrow> bool \<Rightarrow> 'b tensor gm" where
  "map_fn fn elems parallel_iterations back_prop swap_memory =
     (if \<not> callable fn then raise NotCallableError
      else
        bind (shape0 elems) (\<lambda>n.
        bind (TensorArray n False) (\<lambda>elems_ta.
        bind (unpack elems_ta elems) (\<lambda>elems_ta.
        let i = 0 in
        bind (TensorArray n False) (\<lambda>acc_ta.
        bind (While (\<lambda>(i, a). i < n) (map_compute fn elems_ta) (i, acc_ta)
                parallel_iterations back_prop swap_memory) (\<lambda>(_, r_a).
        pack r_a))))))"

subsection \<open>scan\<close>

definition scan_compute ::
  "('a, 'a) pyobj \<Rightarrow> 'a tensor_array \<Rightarrow> int \<times> 'a tensor \<times> 'a tensor_array \<Rightarrow>
   (int \<times> 'a tensor \<times> 'a tensor_array) gm" where
  "scan_compute fn elems_ta = (\<lambda>(i, a, ta).
     bind (read elems_ta i) (\<lambda>x.
     bind (call2 fn a x) (\<lambda>a.
     bind (write ta i a) (\<lambda>ta.
     return (i + 1, a, ta)))))"

definition scan ::
  "('a, 'a) pyobj \<Rightarrow> 'a tensor \<Rightarrow> 'a tensor option \<Rightarrow> int \<Rightarrow> bool \<Rightarrow> bool \<Rightarrow> 'a tensor gm" where
  "scan fn elems initializer parallel_iterations back_prop swap_memory =
     (if \<not> callable fn then raise NotCallableError
      else
        bind (shape0 elems) (\<lambda>n.
        bind (TensorArray n False) (\<lambda>elems_ta.
        bind (unpack elems_ta elems) (\<lambda>elems_ta.
        bind (case initializer of
                None \<Rightarrow> bind (read elems_ta 0) (\<lambda>a. return (a, 1))
              | Some v \<Rightarrow> return (v, 0)) (\<lambda>(a, i).
        bind (TensorArray n False) (\<lambda>acc_ta.
        bind (case initializer of
                None \<Rightarrow> write acc_ta 0 a
              | Some v \<Rightarrow> return acc_ta) (\<lambda>acc_ta.
        bind (While (\<lambda>(i, a, ta). i < n) (scan_compute fn elems_ta) (i, a, acc_ta)
                parallel_iterations back_prop swap_memory) (\<lambda>(_, _, r_a).
        pack r_a))))))))"

subsection \<open>The name scope and the four functions\<close>











subsection \<open>Reference functions and sample arguments\<close>

text \<open>
  The running results of a left fold: \<open>prefix_folds f a [x1, x2, ...]\<close> is
  \<open>[f a x1, f (f a x1) x2, ...]\<close>.
\<close>

fun prefix_folds :: "('b \<Rightarrow> 'a \<Rightarrow> 'b) \<Rightarrow> 'b \<Rightarrow> 'a list \<Rightarrow> 'b list" where
  "prefix_folds f a [] = []"
| "prefix_folds f a (x # xs) = f a x # prefix_folds f (f a x) xs"

text \<open>
  The last slice of a value along its leading dimension, \<open>v[-1]\<close>; a value without
  slices has none.
\<close>

fun last_slot :: "'a tensor \<Rightarrow> error + 'a tensor" where
  "last_slot (Scalar c) = Inl ShapeError"
| "last_slot (Stack vs) = (if vs = [] then Inl IndexError else Inr (last vs))"

text \<open>
  The functions of the examples in the docstrings, \<open>lambda a, x: a + x\<close> and
  \<open>lambda x: x * x\<close>, and a subtraction, on integer scalars.
\<close>

fun tadd :: "int tensor \<Rightarrow> int tensor \<Rightarrow> int tensor" where
  "tadd (Scalar a) (Scalar x) = Scalar (a + x)"
| "tadd a x = a"

fun tsub :: "int tensor \<Rightarrow> int tensor \<Rightarrow> int tensor" where
  "tsub (Scalar a) (Scalar x) = Scalar (a - x)"
| "tsub a x = a"

fun tsquare :: "int tensor \<Rightarrow> int tensor" where
  "tsquare (Scalar x) = Scalar (x * x)"
| "tsquare x = x"

definition elems6 :: "int tensor" where
  "elems6 = Stack [Scalar 1, Scalar 2, Scalar 3, Scalar 4, Scalar 5, Scalar 6]"


subsection \<open>Facts about the operations\<close>

lemma return_apply: "return x log = Some (Inr x, log)"
  by (simp add: return_def)

lemma raise_apply: "raise e log = Some (Inl e, log)"
  by (simp add: raise_def)

lemma bind_return: "bind (return x) f = f x"
  by (simp add: bind_def return_def)

lemma bind_raise: "bind (raise e) f = raise e"
  by (simp add: bind_def raise_def)

lemma bind_emit: "bind (emit ev) f log = f () (log @ [ev])"
  by (simp add: bind_def emit_def)

lemma bind_Inr: "m log = Some (Inr x, log') \<Longrightarrow> bind m f log = f x log'"
  by (simp add: bind_def)


lemma bind_assoc: "bind (bind m f) g = bind m (\<lambda>x. bind (f x) g)"
  by (auto simp add: bind_def fun_eq_iff split: option.splits sum.splits)

lemma shape0_Stack: "shape0 (Stack vs) = return (int (length vs))"
  by (simp add: shape0_def)

lemma shape0_Scalar: "shape0 (Scalar c) = raise ShapeError"
  by (simp add: shape0_def)

lemma TensorArray_apply:
  "TensorArray n d log = Some (Inr \<lparr>dynamic_size = d, slots = replicate (nat n) None\<rparr>, log @ [Alloc n])"
  by (simp add: TensorArray_def bind_emit return_apply)

lemma unpack_Stack:
  "unpack ta (Stack vs) log = Some (Inr (ta\<lparr>slots := map Some vs\<rparr>), log @ [Unpack])"
  by (simp add: unpack_def bind_emit return_apply)

lemma unpack_Scalar:
  "unpack ta (Scalar c) log = Some (Inl ShapeError, log @ [Unpack])"
  by (simp add: unpack_def bind_emit raise_apply)

lemma read_unpacked:
  "i < length vs \<Longrightarrow> slots ta = map Some vs \<Longrightarrow>
   read ta (int i) log = Some (Inr (vs ! i), log @ [Read (int i)])"
  by (simp add: read_def bind_emit return_apply capacity_def)

lemma read_out_of_range:
  "i < 0 \<or> capacity ta \<le> i \<Longrightarrow> read ta i log = Some (Inl IndexError, log @ [Read i])"
  by (auto simp add: read_def bind_emit raise_apply)

lemma write_in_range:
  "i < length (slots ta) \<Longrightarrow> slots ta ! i = None \<Longrightarrow>
   write ta (int i) v log = Some (Inr (ta\<lparr>slots := (slots ta)[i := Some v]\<rparr>), log @ [Write (int i)])"
  by (simp add: write_def bind_emit return_apply capacity_def)

lemma pack_written:
  "slots ta = map Some ys \<Longrightarrow> pack ta log = Some (Inr (Stack ys), log @ [Pack])"
  by (simp add: pack_def bind_emit return_apply list_all_iff comp_def)

lemma call1_Fn1: "call1 (Fn1 f) x log = Some (Inr (f x), log @ [Call])"
  by (simp add: call1_def bind_emit return_apply)


lemma call2_Fn2: "call2 (Fn2 f) a x log = Some (Inr (f a x), log @ [Call])"
  by (simp add: call2_def bind_emit return_apply)


lemma While_apply:
  "While c body vars p b s log = iterate c body vars (log @ [EnterWhile])"
  by (simp add: While_def bind_emit)

lemma iterate_stop: "\<not> c v \<Longrightarrow> iterate c body v log = Some (Inr v, log)"
  by (subst iterate.simps) simp

lemma iterate_fail:
  "c v \<Longrightarrow> body v log = Some (Inl e, log') \<Longrightarrow> iterate c body v log = Some (Inl e, log')"
  by (subst iterate.simps) simp




subsection \<open>Facts about the reference functions\<close>

lemma length_prefix_folds: "length (prefix_folds f a xs) = length xs"
  by (induction xs arbitrary: a) simp_all

lemma last_prefix_folds: "xs \<noteq> [] \<Longrightarrow> last (prefix_folds f a xs) = foldl f a xs"
proof (induction xs arbitrary: a)
  case Nil
  then show ?case by simp
next
  case (Cons x xs)
  then show ?case by (cases xs) simp_all
qed

lemma nth_prefix_folds:
  "i < length xs \<Longrightarrow> (a # prefix_folds f a xs) ! Suc i = f ((a # prefix_folds f a xs) ! i) (xs ! i)"
proof (induction xs arbitrary: a i)
  case Nil
  then show ?case by simp
next
  case (Cons x xs)
  then show ?case by (cases i) simp_all
qed

lemma update_next_slot:
  "length ds = i \<Longrightarrow> i < n \<Longrightarrow>
   (map Some ds @ replicate (n - i) None)[i := Some v] =
     map Some (ds @ [v]) @ replicate (n - Suc i) None"
  by (cases "n - i") (simp_all add: list_update_append Suc_diff_Suc)

subsection \<open>The loops of the four combinators\<close>

lemma foldl_compute_step:
  assumes "i < length xs" "slots ta = map Some xs"
  shows "foldl_compute (Fn2 f) ta (int i, a) log =
           Some (Inr (int (Suc i), f a (xs ! i)), log @ [Read (int i), Call])"
  using assms
  by (simp add: foldl_compute_def bind_Inr [OF read_unpacked] bind_Inr [OF call2_Fn2] return_apply
      add.commute)

lemma foldl_iterate:
  assumes "slots ta = map Some xs"
  shows "i \<le> length xs \<Longrightarrow>
    iterate (\<lambda>(i, a). i < int (length xs)) (foldl_compute (Fn2 f) ta) (int i, a) log =
      Some (Inr (int (length xs), foldl f a (drop i xs)),
            log @ concat (map (\<lambda>j. [Read (int j), Call]) [i..<length xs]))"
proof (induction "length xs - i" arbitrary: i a log)
  case 0
  then have "i = length xs" by simp
  then show ?case by (subst iterate.simps) simp
next
  case (Suc k)
  then have lt: "i < length xs" and k: "k = length xs - Suc i" and le: "Suc i \<le> length xs"
    by simp_all
  have dr: "drop i xs = xs ! i # drop (Suc i) xs"
    using lt by (simp add: Cons_nth_drop_Suc)
  have up: "[i..<length xs] = i # [Suc i..<length xs]"
    using lt by (simp add: upt_conv_Cons)
  show ?case
    by (subst iterate.simps)
       (simp add: lt foldl_compute_step [OF lt assms] Suc.hyps(1) [OF k le] dr up
             del: of_nat_Suc)
qed

lemma foldr_compute_step:
  assumes "i < length xs" "slots ta = map Some xs"
  shows "foldr_compute (Fn2 f) ta (int (Suc i), a) log =
           Some (Inr (int i, f a (xs ! i)), log @ [Read (int i), Call])"
  using assms
  by (simp add: foldr_compute_def Let_def bind_Inr [OF read_unpacked] bind_Inr [OF call2_Fn2] return_apply)

lemma foldr_iterate:
  assumes "slots ta = map Some xs"
  shows "i \<le> length xs \<Longrightarrow>
    iterate (\<lambda>(i, a). i > 0) (foldr_compute (Fn2 f) ta) (int i, a) log =
      Some (Inr (0, foldl f a (rev (take i xs))),
            log @ concat (map (\<lambda>j. [Read (int j), Call]) (rev [0..<i])))"
proof (induction i arbitrary: a log)
  case 0
  then show ?case by (subst iterate.simps) simp
next
  case (Suc k)
  then have lt: "k < length xs" and le: "k \<le> length xs" by simp_all
  have tk: "take (Suc k) xs = take k xs @ [xs ! k]"
    using lt by (simp add: take_Suc_conv_app_nth)
  show ?case
    by (subst iterate.simps)
       (simp add: foldr_compute_step [OF lt assms] Suc.IH [OF le] tk del: of_nat_Suc)
qed

lemma map_compute_step:
  assumes "i < length xs" "slots ta = map Some xs" "i < length (slots acc)"
    "slots acc ! i = None"
  shows "map_compute (Fn1 f) ta (int i, acc) log =
           Some (Inr (int (Suc i), acc\<lparr>slots := (slots acc)[i := Some (f (xs ! i))]\<rparr>),
                 log @ [Read (int i), Call, Write (int i)])"
  using assms
  by (simp add: map_compute_def bind_Inr [OF read_unpacked] bind_Inr [OF call1_Fn1]
      bind_Inr [OF write_in_range] return_apply add.commute)

lemma map_iterate:
  assumes "slots ta = map Some xs"
  shows "i \<le> length xs \<Longrightarrow> length ds = i \<Longrightarrow>
    slots acc = map Some ds @ replicate (length xs - i) None \<Longrightarrow>
    iterate (\<lambda>(i, a). i < int (length xs)) (map_compute (Fn1 f) ta) (int i, acc) log =
      Some (Inr (int (length xs), acc\<lparr>slots := map Some (ds @ map f (drop i xs))\<rparr>),
            log @ concat (map (\<lambda>j. [Read (int j), Call, Write (int j)]) [i..<length xs]))"
proof (induction "length xs - i" arbitrary: i ds acc log)
  case 0
  then have "i = length xs" by simp
  with 0 show ?case by (subst iterate.simps) simp
next
  case (Suc k)
  then have lt: "i < length xs" and k: "k = length xs - Suc i" and le: "Suc i \<le> length xs"
    by simp_all
  have inr: "i < length (slots acc)"
    using Suc.prems lt by simp
  have emp: "slots acc ! i = None"
    using Suc.prems lt by (simp add: nth_append)
  have dr: "drop i xs = xs ! i # drop (Suc i) xs"
    using lt by (simp add: Cons_nth_drop_Suc)
  have up: "[i..<length xs] = i # [Suc i..<length xs]"
    using lt by (simp add: upt_conv_Cons)
  let ?acc = "acc\<lparr>slots := (slots acc)[i := Some (f (xs ! i))]\<rparr>"
  have sl: "slots ?acc = map Some (ds @ [f (xs ! i)]) @ replicate (length xs - Suc i) None"
    using Suc.prems lt by (simp add: update_next_slot)
  have len: "length (ds @ [f (xs ! i)]) = Suc i"
    using Suc.prems by simp
  show ?case
    by (subst iterate.simps)
       (simp add: lt map_compute_step [OF lt assms inr emp] Suc.hyps(1) [OF k le len sl] dr up
             del: of_nat_Suc)
qed

lemma scan_compute_step:
  assumes "i < length xs" "slots ta = map Some xs" "i < length (slots acc)"
    "slots acc ! i = None"
  shows "scan_compute (Fn2 f) ta (int i, a, acc) log =
           Some (Inr (int (Suc i), f a (xs ! i), acc\<lparr>slots := (slots acc)[i := Some (f a (xs ! i))]\<rparr>),
                 log @ [Read (int i), Call, Write (int i)])"
  using assms
  by (simp add: scan_compute_def bind_Inr [OF read_unpacked] bind_Inr [OF call2_Fn2]
      bind_Inr [OF write_in_range] return_apply add.commute)

lemma scan_iterate:
  assumes "slots ta = map Some xs"
  shows "i \<le> length xs \<Longrightarrow> length ds = i \<Longrightarrow>
    slots acc = map Some ds @ replicate (length xs - i) None \<Longrightarrow>
    iterate (\<lambda>(i, a, ta). i < int (length xs)) (scan_compute (Fn2 f) ta) (int i, a, acc) log =
      Some (Inr (int (length xs), foldl f a (drop i xs),
                 acc\<lparr>slots := map Some (ds @ prefix_folds f a (drop i xs))\<rparr>),
            log @ concat (map (\<lambda>j. [Read (int j), Call, Write (int j)]) [i..<length xs]))"
proof (induction "length xs - i" arbitrary: i a ds acc log)
  case 0
  then have "i = length xs" by simp
  with 0 show ?case by (subst iterate.simps) simp
next
  case (Suc k)
  then have lt: "i < length xs" and k: "k = length xs - Suc i" and le: "Suc i \<le> length xs"
    by simp_all
  have inr: "i < length (slots acc)"
    using Suc.prems lt by simp
  have emp: "slots acc ! i = None"
    using Suc.prems lt by (simp add: nth_append)
  have dr: "drop i xs = xs ! i # drop (Suc i) xs"
    using lt by (simp add: Cons_nth_drop_Suc)
  have up: "[i..<length xs] = i # [Suc i..<length xs]"
    using lt by (simp add: upt_conv_Cons)
  let ?v = "f a (xs ! i)"
  let ?acc = "acc\<lparr>slots := (slots acc)[i := Some ?v]\<rparr>"
  have sl: "slots ?acc = map Some (ds @ [?v]) @ replicate (length xs - Suc i) None"
    using Suc.prems lt by (simp add: update_next_slot)
  have len: "length (ds @ [?v]) = Suc i"
    using Suc.prems by simp
  show ?case
    by (subst iterate.simps)
       (simp add: lt scan_compute_step [OF lt assms inr emp] Suc.hyps(1) [OF k le len sl] dr up
             del: of_nat_Suc)
qed

subsection \<open>Rewriting a sequence of operations\<close>

lemma bind_TensorArray:
  "bind (TensorArray n d) k log =
     k \<lparr>dynamic_size = d, slots = replicate (nat n) None\<rparr> (log @ [Alloc n])"
  by (simp add: bind_Inr [OF TensorArray_apply])

lemma bind_unpack_Stack:
  "bind (unpack ta (Stack vs)) k log = k (ta\<lparr>slots := map Some vs\<rparr>) (log @ [Unpack])"
  by (simp add: bind_Inr [OF unpack_Stack])

lemma bind_While:
  "bind (While c body vars p b s) k log = bind (iterate c body vars) k (log @ [EnterWhile])"
  by (simp add: bind_def While_apply)

lemma bind_pack:
  "slots ta = map Some ys \<Longrightarrow> bind (pack ta) k log = k (Stack ys) (log @ [Pack])"
  by (simp add: bind_Inr [OF pack_written])

lemma bind_read_first:
  "slots ta = map Some (x # xs) \<Longrightarrow> bind (read ta 0) k log = k x (log @ [Read 0])"
  using read_unpacked [of 0 "x # xs" ta log] by (simp add: bind_def)

lemma bind_read_last:
  "slots ta = map Some (xs @ [x]) \<Longrightarrow> i = int (length xs) \<Longrightarrow>
   bind (read ta i) k log = k x (log @ [Read i])"
  using read_unpacked [of "length xs" "xs @ [x]" ta log] by (simp add: bind_def)

lemma bind_read_empty:
  "slots ta = [] \<Longrightarrow> bind (read ta i) k log = Some (Inl IndexError, log @ [Read i])"
  by (auto simp add: read_def bind_def emit_def raise_def capacity_def)

lemma bind_write_first:
  "slots ta \<noteq> [] \<Longrightarrow> slots ta ! 0 = None \<Longrightarrow>
   bind (write ta 0 v) k log = k (ta\<lparr>slots := (slots ta)[0 := Some v]\<rparr>) (log @ [Write 0])"
  using write_in_range [of 0 ta v log] by (simp add: bind_def)

lemma bind_foldl_iterate:
  assumes "slots ta = map Some xs" "n = int (length xs)" "0 \<le> i" "i \<le> n"
  shows "bind (iterate (\<lambda>(i, a). i < n) (foldl_compute (Fn2 f) ta) (i, a)) k log =
           k (n, foldl f a (drop (nat i) xs))
             (log @ concat (map (\<lambda>j. [Read (int j), Call]) [nat i..<length xs]))"
  using assms foldl_iterate [OF assms(1), of "nat i" f a log] by (simp add: bind_def)

lemma bind_foldr_iterate:
  assumes "slots ta = map Some xs" "0 \<le> i" "i \<le> int (length xs)"
  shows "bind (iterate (\<lambda>(i, a). i > 0) (foldr_compute (Fn2 f) ta) (i, a)) k log =
           k (0, foldl f a (rev (take (nat i) xs)))
             (log @ concat (map (\<lambda>j. [Read (int j), Call]) (rev [0..<nat i])))"
  using assms foldr_iterate [OF assms(1), of "nat i" f a log] by (simp add: bind_def)

lemma bind_map_iterate:
  assumes "slots ta = map Some xs" "n = int (length xs)" "slots acc = replicate (length xs) None"
  shows "bind (iterate (\<lambda>(i, a). i < n) (map_compute (Fn1 f) ta) (0, acc)) k log =
           k (n, acc\<lparr>slots := map Some (map f xs)\<rparr>)
             (log @ concat (map (\<lambda>j. [Read (int j), Call, Write (int j)]) [0..<length xs]))"
  using assms map_iterate [OF assms(1), of 0 "[]" acc f log] by (simp add: bind_def)

lemma bind_scan_iterate:
  assumes "slots ta = map Some xs" "n = int (length xs)" "0 \<le> i" "i \<le> n"
    "length ds = nat i" "slots acc = map Some ds @ replicate (length xs - nat i) None"
  shows "bind (iterate (\<lambda>(i, a, ta). i < n) (scan_compute (Fn2 f) ta) (i, a, acc)) k log =
           k (n, foldl f a (drop (nat i) xs),
              acc\<lparr>slots := map Some (ds @ prefix_folds f a (drop (nat i) xs))\<rparr>)
             (log @ concat (map (\<lambda>j. [Read (int j), Call, Write (int j)]) [nat i..<length xs]))"
  using assms scan_iterate [OF assms(1), of "nat i" ds acc f a log] by (simp add: bind_def)

subsection \<open>Runs of the combinators\<close>

lemma foldl_op_no_init:
  "foldl_op (Fn2 f) (Stack (x # xs)) None p b s log =
     Some (Inr (foldl f x xs),
           log @ [Alloc (int (Suc (length xs))), Unpack, Read 0, EnterWhile]
               @ concat (map (\<lambda>j. [Read (int j), Call]) [1..<Suc (length xs)]))"
  by (simp add: foldl_op_def callable_def shape0_Stack bind_assoc bind_return bind_TensorArray
      bind_unpack_Stack bind_read_first [where x = x and xs = xs] bind_While
      bind_foldl_iterate [where xs = "x # xs"] return_apply del: upt_Suc)

lemma foldl_op_init:
  "foldl_op (Fn2 f) (Stack xs) (Some a) p b s log =
     Some (Inr (foldl f a xs),
           log @ [Alloc (int (length xs)), Unpack, EnterWhile]
               @ concat (map (\<lambda>j. [Read (int j), Call]) [0..<length xs]))"
  by (simp add: foldl_op_def callable_def shape0_Stack bind_assoc bind_return bind_TensorArray
      bind_unpack_Stack bind_While bind_foldl_iterate [where xs = xs] return_apply)

lemma foldr_op_no_init:
  "foldr_op (Fn2 f) (Stack (xs @ [x])) None p b s log =
     Some (Inr (foldl f x (rev xs)),
           log @ [Alloc (int (Suc (length xs))), Unpack, Read (int (length xs)), EnterWhile]
               @ concat (map (\<lambda>j. [Read (int j), Call]) (rev [0..<length xs])))"
  by (simp add: foldr_op_def Let_def callable_def shape0_Stack bind_assoc bind_return bind_TensorArray
      bind_unpack_Stack bind_read_last [where x = x and xs = xs] bind_While
      bind_foldr_iterate [where xs = "xs @ [x]"] return_apply)

lemma foldr_op_init:
  "foldr_op (Fn2 f) (Stack xs) (Some a) p b s log =
     Some (Inr (foldl f a (rev xs)),
           log @ [Alloc (int (length xs)), Unpack, EnterWhile]
               @ concat (map (\<lambda>j. [Read (int j), Call]) (rev [0..<length xs])))"
  by (simp add: foldr_op_def Let_def callable_def shape0_Stack bind_assoc bind_return bind_TensorArray
      bind_unpack_Stack bind_While bind_foldr_iterate [where xs = xs] return_apply)

lemma map_fn_run:
  "map_fn (Fn1 f) (Stack xs) p b s log =
     Some (Inr (Stack (map f xs)),
           log @ [Alloc (int (length xs)), Unpack, Alloc (int (length xs)), EnterWhile]
               @ concat (map (\<lambda>j. [Read (int j), Call, Write (int j)]) [0..<length xs])
               @ [Pack])"
  by (simp add: map_fn_def callable_def shape0_Stack bind_assoc bind_return bind_TensorArray
      bind_unpack_Stack bind_While bind_map_iterate [where xs = xs]
      pack_written [where ys = "map f xs"])

lemma scan_no_init:
  "scan (Fn2 f) (Stack (x # xs)) None p b s log =
     Some (Inr (Stack (x # prefix_folds f x xs)),
           log @ [Alloc (int (Suc (length xs))), Unpack, Read 0,
                  Alloc (int (Suc (length xs))), Write 0, EnterWhile]
               @ concat (map (\<lambda>j. [Read (int j), Call, Write (int j)]) [1..<Suc (length xs)])
               @ [Pack])"
  by (simp add: scan_def callable_def shape0_Stack bind_assoc bind_return bind_TensorArray
      bind_unpack_Stack bind_read_first [where x = x and xs = xs] bind_write_first bind_While
      bind_scan_iterate [where xs = "x # xs" and ds = "[x]"]
      pack_written [where ys = "x # prefix_folds f x xs"] nat_add_distrib del: upt_Suc)

lemma scan_init:
  "scan (Fn2 f) (Stack xs) (Some a) p b s log =
     Some (Inr (Stack (prefix_folds f a xs)),
           log @ [Alloc (int (length xs)), Unpack, Alloc (int (length xs)), EnterWhile]
               @ concat (map (\<lambda>j. [Read (int j), Call, Write (int j)]) [0..<length xs])
               @ [Pack])"
  by (simp add: scan_def callable_def shape0_Stack bind_assoc bind_return bind_TensorArray
      bind_unpack_Stack bind_While bind_scan_iterate [where xs = xs and ds = "[]"]
      pack_written [where ys = "prefix_folds f a xs"])

subsection \<open>Runs that fail, and runs on the empty input\<close>

lemma foldl_op_empty:
  "callable fn \<Longrightarrow>
   foldl_op fn (Stack []) None p b s log = Some (Inl IndexError, log @ [Alloc 0, Unpack, Read 0])"
  by (simp add: foldl_op_def shape0_Stack bind_assoc bind_return bind_TensorArray
      bind_unpack_Stack bind_read_empty)

lemma foldr_op_empty:
  "callable fn \<Longrightarrow>
   foldr_op fn (Stack []) None p b s log =
     Some (Inl IndexError, log @ [Alloc 0, Unpack, Read (- 1)])"
  by (simp add: foldr_op_def Let_def shape0_Stack bind_assoc bind_return bind_TensorArray
      bind_unpack_Stack bind_read_empty)

lemma scan_empty:
  "callable fn \<Longrightarrow>
   scan fn (Stack []) None p b s log = Some (Inl IndexError, log @ [Alloc 0, Unpack, Read 0])"
  by (simp add: scan_def shape0_Stack bind_assoc bind_return bind_TensorArray
      bind_unpack_Stack bind_read_empty)

lemma map_fn_empty:
  "callable fn \<Longrightarrow>
   map_fn fn (Stack []) p b s log =
     Some (Inr (Stack []), log @ [Alloc 0, Unpack, Alloc 0, EnterWhile, Pack])"
  by (simp add: map_fn_def shape0_Stack bind_assoc bind_return bind_TensorArray
      bind_unpack_Stack bind_While bind_Inr [OF iterate_stop] pack_written [where ys = "[]"])





section \<open>The claims\<close>

text \<open>
  C1. On a non-empty input and without an initializer, \<open>foldl\<close> returns the left fold
  \<open>fn(...fn(fn(x0, x1), x2)..., xn-1)\<close>: the accumulator starts as slot 0 and the index
  at 1, every iteration reads slot \<open>i\<close>, applies \<open>fn\<close> to the accumulator and the slot
  and increments \<open>i\<close>, and the loop ends with \<open>i = n\<close>. With an initializer the
  accumulator starts as the initializer and the index at 0. The order of application is
  observable: on \<open>[1, 2, 3]\<close> with subtraction the result is \<open>(1 - 2) - 3\<close>, which is
  not \<open>1 - (2 - 3)\<close>.
\<close>

theorem foldl_left_to_right:
  "foldl_op (Fn2 f) (Stack (x # xs)) None p b s log =
     Some (Inr (foldl f x xs),
           log @ [Alloc (int (Suc (length xs))), Unpack, Read 0, EnterWhile]
               @ concat (map (\<lambda>j. [Read (int j), Call]) [1..<Suc (length xs)]))
   \<and> While (\<lambda>(i, a). i < int (Suc (length xs)))
        (foldl_compute (Fn2 f) \<lparr>dynamic_size = False, slots = map Some (x # xs)\<rparr>)
        (1, x) p b s log =
     Some (Inr (int (Suc (length xs)), foldl f x xs),
           log @ [EnterWhile] @ concat (map (\<lambda>j. [Read (int j), Call]) [1..<Suc (length xs)]))
   \<and> foldl_op (Fn2 f) (Stack ys) (Some a) p b s log =
     Some (Inr (foldl f a ys),
           log @ [Alloc (int (length ys)), Unpack, EnterWhile]
               @ concat (map (\<lambda>j. [Read (int j), Call]) [0..<length ys]))
   \<and> While (\<lambda>(i, a). i < int (length ys))
        (foldl_compute (Fn2 f) \<lparr>dynamic_size = False, slots = map Some ys\<rparr>)
        (0, a) p b s log =
     Some (Inr (int (length ys), foldl f a ys),
           log @ [EnterWhile] @ concat (map (\<lambda>j. [Read (int j), Call]) [0..<length ys]))
   \<and> map_option fst (foldl_op (Fn2 tsub) (Stack [Scalar 1, Scalar 2, Scalar 3]) None p b s log) =
       Some (Inr (tsub (tsub (Scalar 1) (Scalar 2)) (Scalar 3)))
   \<and> tsub (tsub (Scalar 1) (Scalar 2)) (Scalar 3) \<noteq> tsub (Scalar 1) (tsub (Scalar 2) (Scalar 3))"
proof -
  let ?ta = "\<lparr>dynamic_size = False, slots = map Some (x # xs)\<rparr>"
  let ?tb = "\<lparr>dynamic_size = False, slots = map Some ys\<rparr>"
  have sa: "slots ?ta = map Some (x # xs)" and sb: "slots ?tb = map Some ys"
    by simp_all
  have la: "While (\<lambda>(i, a). i < int (Suc (length xs))) (foldl_compute (Fn2 f) ?ta) (1, x) p b s log =
     Some (Inr (int (Suc (length xs)), foldl f x xs),
           log @ [EnterWhile] @ concat (map (\<lambda>j. [Read (int j), Call]) [1..<Suc (length xs)]))"
    using foldl_iterate [OF sa, of 1 f x "log @ [EnterWhile]"]
    by (simp add: While_apply del: upt_Suc)
  have lb: "While (\<lambda>(i, a). i < int (length ys)) (foldl_compute (Fn2 f) ?tb) (0, a) p b s log =
     Some (Inr (int (length ys), foldl f a ys),
           log @ [EnterWhile] @ concat (map (\<lambda>j. [Read (int j), Call]) [0..<length ys]))"
    using foldl_iterate [OF sb, of 0 f a "log @ [EnterWhile]"]
    by (simp add: While_apply)
  have ex: "map_option fst (foldl_op (Fn2 tsub) (Stack [Scalar 1, Scalar 2, Scalar 3]) None p b s log) =
       Some (Inr (tsub (tsub (Scalar 1) (Scalar 2)) (Scalar 3)))"
    by (simp add: foldl_op_no_init)
  have ne: "tsub (tsub (Scalar 1) (Scalar 2)) (Scalar 3) \<noteq> tsub (Scalar 1) (tsub (Scalar 2) (Scalar 3))"
    by simp
  show ?thesis
    using la lb ex ne foldl_op_no_init [of f x xs p b s log] foldl_op_init [of f ys a p b s log]
    by blast
qed

theorem foldl_left_to_right_witness:
  "map_option fst (foldl_op (Fn2 tadd) elems6 None 10 True False []) = Some (Inr (Scalar 21))"
  using foldl_left_to_right [of tadd "Scalar 1" "[Scalar 2, Scalar 3, Scalar 4, Scalar 5, Scalar 6]"
      10 True False "[]"]
  by (simp add: elems6_def)

text \<open>
  C2. \<open>foldr\<close> applies \<open>fn\<close> from the last slot to the first. Without an initializer the
  accumulator starts as slot \<open>n - 1\<close> and the index at \<open>n - 1\<close>; with an initializer the
  accumulator starts as the initializer and the index at \<open>n\<close>. Every iteration first
  decrements the index, then reads that slot and applies \<open>fn\<close> to the accumulator and the
  slot, and the loop ends with \<open>i = 0\<close>. On \<open>[1, 2, 3]\<close> with subtraction \<open>foldl\<close> and
  \<open>foldr\<close> return different values.
\<close>

theorem foldr_right_to_left:
  "foldr_op (Fn2 f) (Stack (xs @ [x])) None p b s log =
     Some (Inr (foldl f x (rev xs)),
           log @ [Alloc (int (Suc (length xs))), Unpack, Read (int (length xs)), EnterWhile]
               @ concat (map (\<lambda>j. [Read (int j), Call]) (rev [0..<length xs])))
   \<and> While (\<lambda>(i, a). i > 0)
        (foldr_compute (Fn2 f) \<lparr>dynamic_size = False, slots = map Some (xs @ [x])\<rparr>)
        (int (Suc (length xs)) - 1, x) p b s log =
     Some (Inr (0, foldl f x (rev xs)),
           log @ [EnterWhile] @ concat (map (\<lambda>j. [Read (int j), Call]) (rev [0..<length xs])))
   \<and> foldr_op (Fn2 f) (Stack ys) (Some a) p b s log =
     Some (Inr (foldl f a (rev ys)),
           log @ [Alloc (int (length ys)), Unpack, EnterWhile]
               @ concat (map (\<lambda>j. [Read (int j), Call]) (rev [0..<length ys])))
   \<and> While (\<lambda>(i, a). i > 0)
        (foldr_compute (Fn2 f) \<lparr>dynamic_size = False, slots = map Some ys\<rparr>)
        (int (length ys), a) p b s log =
     Some (Inr (0, foldl f a (rev ys)),
           log @ [EnterWhile] @ concat (map (\<lambda>j. [Read (int j), Call]) (rev [0..<length ys])))
   \<and> map_option fst (foldr_op (Fn2 tsub) (Stack [Scalar 1, Scalar 2, Scalar 3]) None p b s log) =
       Some (Inr (Scalar 0))
   \<and> map_option fst (foldl_op (Fn2 tsub) (Stack [Scalar 1, Scalar 2, Scalar 3]) None p b s log) =
       Some (Inr (Scalar (- 4)))"
proof -
  let ?ta = "\<lparr>dynamic_size = False, slots = map Some (xs @ [x])\<rparr>"
  let ?tb = "\<lparr>dynamic_size = False, slots = map Some ys\<rparr>"
  have sa: "slots ?ta = map Some (xs @ [x])" and sb: "slots ?tb = map Some ys"
    by simp_all
  have la: "While (\<lambda>(i, a). i > 0) (foldr_compute (Fn2 f) ?ta)
        (int (Suc (length xs)) - 1, x) p b s log =
     Some (Inr (0, foldl f x (rev xs)),
           log @ [EnterWhile] @ concat (map (\<lambda>j. [Read (int j), Call]) (rev [0..<length xs])))"
    using foldr_iterate [OF sa, of "length xs" f x "log @ [EnterWhile]"]
    by (simp add: While_apply)
  have lb: "While (\<lambda>(i, a). i > 0) (foldr_compute (Fn2 f) ?tb) (int (length ys), a) p b s log =
     Some (Inr (0, foldl f a (rev ys)),
           log @ [EnterWhile] @ concat (map (\<lambda>j. [Read (int j), Call]) (rev [0..<length ys])))"
    using foldr_iterate [OF sb, of "length ys" f a "log @ [EnterWhile]"]
    by (simp add: While_apply)
  have er: "map_option fst (foldr_op (Fn2 tsub) (Stack [Scalar 1, Scalar 2, Scalar 3]) None p b s log) =
       Some (Inr (Scalar 0))"
    using foldr_op_no_init [of tsub "[Scalar 1, Scalar 2]" "Scalar 3" p b s log] by simp
  have el: "map_option fst (foldl_op (Fn2 tsub) (Stack [Scalar 1, Scalar 2, Scalar 3]) None p b s log) =
       Some (Inr (Scalar (- 4)))"
    by (simp add: foldl_op_no_init)
  show ?thesis
    using la lb er el foldr_op_no_init [of f xs x p b s log] foldr_op_init [of f ys a p b s log]
    by blast
qed

theorem foldr_right_to_left_witness:
  "map_option fst (foldr_op (Fn2 tadd) elems6 None 10 True False []) = Some (Inr (Scalar 21))"
  using foldr_right_to_left [of tadd "[Scalar 1, Scalar 2, Scalar 3, Scalar 4, Scalar 5]" "Scalar 6"
      10 True False "[]"]
  by (simp add: elems6_def)

text \<open>
  C3, as amended. On every non-empty input, with or without an initializer, \<open>scan\<close>
  succeeds, its output (the running results of the fold) has as many slices as the input,
  and the last slice is the result of \<open>foldl\<close> on the same arguments. On the empty input
  with an initializer \<open>scan\<close> succeeds with the empty output.
\<close>

theorem scan_last_is_foldl:
  "map_option fst (scan (Fn2 f) (Stack (x # xs)) None p b s log) =
     Some (Inr (Stack (x # prefix_folds f x xs)))
   \<and> length (x # prefix_folds f x xs) = length (x # xs)
   \<and> map_option fst (foldl_op (Fn2 f) (Stack (x # xs)) None p b s log) =
       Some (last_slot (Stack (x # prefix_folds f x xs)))
   \<and> map_option fst (scan (Fn2 f) (Stack (x # xs)) (Some a) p b s log) =
       Some (Inr (Stack (prefix_folds f a (x # xs))))
   \<and> length (prefix_folds f a (x # xs)) = length (x # xs)
   \<and> map_option fst (foldl_op (Fn2 f) (Stack (x # xs)) (Some a) p b s log) =
       Some (last_slot (Stack (prefix_folds f a (x # xs))))
   \<and> map_option fst (scan (Fn2 f) (Stack []) (Some a) p b s log) = Some (Inr (Stack []))"
proof -
  have l1: "last (x # prefix_folds f x xs) = foldl f x xs"
  proof (cases xs)
    case Nil
    then show ?thesis by simp
  next
    case (Cons y zs)
    then have "prefix_folds f x xs \<noteq> []" by simp
    then have "last (x # prefix_folds f x xs) = last (prefix_folds f x xs)" by simp
    also have "\<dots> = foldl f x xs"
      using Cons by (intro last_prefix_folds) simp
    finally show ?thesis .
  qed
  have l2: "last (prefix_folds f a (x # xs)) = foldl f a (x # xs)"
    by (rule last_prefix_folds) simp
  have n2: "prefix_folds f a (x # xs) \<noteq> []" by simp
  have a1: "map_option fst (foldl_op (Fn2 f) (Stack (x # xs)) None p b s log) =
       Some (last_slot (Stack (x # prefix_folds f x xs)))"
    by (simp only: last_slot.simps l1 foldl_op_no_init) simp
  have a2: "map_option fst (foldl_op (Fn2 f) (Stack (x # xs)) (Some a) p b s log) =
       Some (last_slot (Stack (prefix_folds f a (x # xs))))"
    by (simp only: last_slot.simps l2 n2 foldl_op_init) simp
  show ?thesis
    using a1 a2
    by (simp add: scan_no_init scan_init length_prefix_folds del: upt_Suc)
qed

theorem scan_last_is_foldl_witness:
  "map_option fst (scan (Fn2 tadd) elems6 None 10 True False []) =
     Some (Inr (Stack [Scalar 1, Scalar 3, Scalar 6, Scalar 10, Scalar 15, Scalar 21]))
   \<and> map_option fst (foldl_op (Fn2 tadd) elems6 None 10 True False []) = Some (Inr (Scalar 21))"
  using scan_last_is_foldl [of tadd "Scalar 1" "[Scalar 2, Scalar 3, Scalar 4, Scalar 5, Scalar 6]"
      10 True False "[]" "Scalar 0"]
  by (simp add: elems6_def)

text \<open>
  C3, as stated, fails on the empty input with an initializer: \<open>scan\<close> succeeds with an
  output that has no last slice, and \<open>foldl\<close> returns the initializer.
\<close>

theorem scan_last_is_foldl_counterexample:
  "map_option fst (scan (Fn2 tadd) (Stack []) (Some (Scalar 0)) 10 True False []) =
     Some (Inr (Stack []))
   \<and> last_slot (Stack []) = (Inl IndexError :: error + int tensor)
   \<and> map_option fst (foldl_op (Fn2 tadd) (Stack []) (Some (Scalar 0)) 10 True False []) =
     Some (Inr (Scalar 0))
   \<and> map_option fst (foldl_op (Fn2 tadd) (Stack []) (Some (Scalar 0)) 10 True False []) \<noteq>
     Some (last_slot (Stack []))"
  by (simp add: scan_init foldl_op_init)

text \<open>
  C4. Without an initializer and on a non-empty input, \<open>scan\<close> writes the first input
  slice, unchanged, to output slot 0 before it enters the loop (no application of \<open>fn\<close>
  precedes the loop); the loop starts at index 1 and runs once for each of the remaining
  \<open>n - 1\<close> slots, writing to slot \<open>i\<close> the value of \<open>fn\<close> at the accumulator (the
  content of slot \<open>i - 1\<close>) and input slot \<open>i\<close>.
\<close>

theorem scan_seeds_slot_0:
  "scan (Fn2 f) (Stack (x # xs)) None p b s log =
     Some (Inr (Stack (x # prefix_folds f x xs)),
           log @ [Alloc (int (Suc (length xs))), Unpack, Read 0,
                  Alloc (int (Suc (length xs))), Write 0, EnterWhile]
               @ concat (map (\<lambda>j. [Read (int j), Call, Write (int j)]) [1..<Suc (length xs)])
               @ [Pack])
   \<and> (x # prefix_folds f x xs) ! 0 = x
   \<and> (\<forall>i. 1 \<le> i \<and> i < length (x # xs) \<longrightarrow>
          (x # prefix_folds f x xs) ! i = f ((x # prefix_folds f x xs) ! (i - 1)) ((x # xs) ! i))"
proof -
  have "(x # prefix_folds f x xs) ! i = f ((x # prefix_folds f x xs) ! (i - 1)) ((x # xs) ! i)"
    if "1 \<le> i" "i < length (x # xs)" for i
  proof -
    from that obtain k where k: "i = Suc k" "k < length xs"
      by (cases i) simp_all
    show ?thesis
      using nth_prefix_folds [OF k(2), of x f] by (simp add: k)
  qed
  then show ?thesis
    using scan_no_init [of f x xs p b s log] by simp
qed

theorem scan_seeds_slot_0_witness:
  "scan (Fn2 tadd) elems6 None 10 True False [] =
     Some (Inr (Stack [Scalar 1, Scalar 3, Scalar 6, Scalar 10, Scalar 15, Scalar 21]),
           [Alloc 6, Unpack, Read 0, Alloc 6, Write 0, EnterWhile,
            Read 1, Call, Write 1, Read 2, Call, Write 2, Read 3, Call, Write 3,
            Read 4, Call, Write 4, Read 5, Call, Write 5, Pack])
   \<and> (1::nat) \<le> 1 \<and> (1::nat) < 6 \<and> tadd (Scalar 1) (Scalar 2) = Scalar 3"
  using scan_seeds_slot_0 [of tadd "Scalar 1" "[Scalar 2, Scalar 3, Scalar 4, Scalar 5, Scalar 6]"
      10 True False "[]"]
  by (simp add: elems6_def upt_rec)

text \<open>
  C5. On every input sequence \<open>map_fn\<close> returns a sequence of the same length whose
  slot \<open>i\<close> is \<open>fn\<close> applied to slot \<open>i\<close> of the input; with the identity function it
  returns its input.
\<close>

theorem map_fn_pointwise:
  "map_fn (Fn1 f) (Stack xs) p b s log =
     Some (Inr (Stack (map f xs)),
           log @ [Alloc (int (length xs)), Unpack, Alloc (int (length xs)), EnterWhile]
               @ concat (map (\<lambda>j. [Read (int j), Call, Write (int j)]) [0..<length xs])
               @ [Pack])
   \<and> length (map f xs) = length xs
   \<and> (\<forall>i < length xs. map f xs ! i = f (xs ! i))
   \<and> map_option fst (map_fn (Fn1 (\<lambda>x. x)) (Stack xs) p b s log) = Some (Inr (Stack xs))"
  by (simp add: map_fn_run)

theorem map_fn_pointwise_witness:
  "map_option fst (map_fn (Fn1 tsquare) elems6 10 True False []) =
     Some (Inr (Stack [Scalar 1, Scalar 4, Scalar 9, Scalar 16, Scalar 25, Scalar 36]))
   \<and> (2::nat) < 6 \<and> tsquare (Scalar 3) = Scalar 9"
  using map_fn_pointwise [of tsquare "[Scalar 1, Scalar 2, Scalar 3, Scalar 4, Scalar 5, Scalar 6]"
      10 True False "[]"]
  by (simp add: elems6_def)

text \<open>
  C6. Unpacking a value of rank at least 1 gives a buffer whose capacity is the size of
  the leading dimension and whose slot \<open>i\<close> is the \<open>i\<close>-th slice; packing that buffer
  gives the value back. Unpacking a value of rank 0 fails with \<open>ShapeError\<close>.
\<close>

theorem pack_unpack_roundtrip:
  "unpack ta (Stack vs) log = Some (Inr (ta\<lparr>slots := map Some vs\<rparr>), log @ [Unpack])
   \<and> capacity (ta\<lparr>slots := map Some vs\<rparr>) = int (length vs)
   \<and> (\<forall>i < length vs.
         read (ta\<lparr>slots := map Some vs\<rparr>) (int i) log = Some (Inr (vs ! i), log @ [Read (int i)]))
   \<and> bind (unpack ta (Stack vs)) pack log = Some (Inr (Stack vs), log @ [Unpack, Pack])
   \<and> bind (TensorArray (int (length vs)) False) (\<lambda>ta. bind (unpack ta (Stack vs)) pack) log =
       Some (Inr (Stack vs), log @ [Alloc (int (length vs)), Unpack, Pack])
   \<and> unpack ta (Scalar c) log = Some (Inl ShapeError, log @ [Unpack])"
  by (simp add: unpack_Stack unpack_Scalar capacity_def read_unpacked bind_TensorArray
      bind_unpack_Stack pack_written [where ys = vs])

theorem pack_unpack_roundtrip_witness:
  "bind (unpack \<lparr>dynamic_size = False, slots = replicate 6 None\<rparr> elems6) pack [] =
     Some (Inr elems6, [Unpack, Pack])
   \<and> (2::nat) < 6
   \<and> read (\<lparr>dynamic_size = False, slots = replicate 6 None\<rparr>
             \<lparr>slots := map Some [Scalar 1, Scalar 2, Scalar 3, Scalar 4, Scalar 5, Scalar 6]\<rparr>)
        (int 2) [] = Some (Inr (Scalar (3::int)), [Read (int 2)])"
proof -
  let ?ta = "\<lparr>dynamic_size = False, slots = replicate 6 None\<rparr> :: int tensor_array"
  let ?vs = "[Scalar (1::int), Scalar 2, Scalar 3, Scalar 4, Scalar 5, Scalar 6]"
  note t = pack_unpack_roundtrip [where ta = ?ta and vs = ?vs and log = "[]" and c = "0::int"]
  have "\<forall>i < length ?vs.
      read (?ta\<lparr>slots := map Some ?vs\<rparr>) (int i) [] = Some (Inr (?vs ! i), [] @ [Read (int i)])"
    by (rule t [THEN conjunct2, THEN conjunct2, THEN conjunct1])
  then have "read (?ta\<lparr>slots := map Some ?vs\<rparr>) (int 2) [] = Some (Inr (?vs ! 2), [Read (int 2)])"
    by (rule allE [where x = 2]) simp
  moreover have "bind (unpack ?ta (Stack ?vs)) pack [] = Some (Inr (Stack ?vs), [] @ [Unpack, Pack])"
    by (rule t [THEN conjunct2, THEN conjunct2, THEN conjunct2, THEN conjunct1])
  ultimately show ?thesis
    by (simp add: elems6_def)
qed




text \<open>
  C8. On the empty input and without an initializer, \<open>foldl\<close> and \<open>scan\<close> fail with
  \<open>IndexError\<close> at the read of slot 0, and \<open>foldr\<close> fails with \<open>IndexError\<close> at the read of
  slot \<open>n - 1 = -1\<close>; the read is the last operation of the run.
\<close>

theorem empty_input_index_error:
  "callable fn \<Longrightarrow>
     foldl_op fn (Stack []) None p b s log = Some (Inl IndexError, log @ [Alloc 0, Unpack, Read 0])
   \<and> scan fn (Stack []) None p b s log = Some (Inl IndexError, log @ [Alloc 0, Unpack, Read 0])
   \<and> foldr_op fn (Stack []) None p b s log =
       Some (Inl IndexError, log @ [Alloc 0, Unpack, Read (- 1)])"
  by (simp add: foldl_op_empty scan_empty foldr_op_empty)

theorem empty_input_index_error_witness:
  "callable (Fn2 tadd)
   \<and> foldl_op (Fn2 tadd) (Stack []) None 10 True False [] =
       Some (Inl IndexError, [Alloc 0, Unpack, Read 0])
   \<and> scan (Fn2 tadd) (Stack []) None 10 True False [] =
       Some (Inl IndexError, [Alloc 0, Unpack, Read 0])
   \<and> foldr_op (Fn2 tadd) (Stack []) None 10 True False [] =
       Some (Inl IndexError, [Alloc 0, Unpack, Read (- 1)])"
proof -
  have c: "callable (Fn2 tadd)" by (simp add: callable_def)
  show ?thesis
    using c empty_input_index_error [OF c, of 10 True False "[]"] by simp
qed

text \<open>
  C10. On the empty input \<open>map_fn\<close> succeeds and returns the empty sequence: the loop
  body does not run (no slot is read or written and \<open>fn\<close> is not applied), and packing the
  output buffer of no slots gives a value of length 0. The other three combinators fail
  on the empty input when no initializer is given.
\<close>

theorem map_fn_empty_input:
  "callable fn \<Longrightarrow> callable fn' \<Longrightarrow>
     map_fn fn (Stack []) p b s log =
       Some (Inr (Stack []), log @ [Alloc 0, Unpack, Alloc 0, EnterWhile, Pack])
   \<and> map_option fst (foldl_op fn' (Stack []) None p b s log) = Some (Inl IndexError)
   \<and> map_option fst (foldr_op fn' (Stack []) None p b s log) = Some (Inl IndexError)
   \<and> map_option fst (scan fn' (Stack []) None p b s log) = Some (Inl IndexError)"
  by (simp add: map_fn_empty foldl_op_empty scan_empty foldr_op_empty)

theorem map_fn_empty_input_witness:
  "callable (Fn1 tsquare) \<and> callable (Fn2 tadd)
   \<and> map_fn (Fn1 tsquare) (Stack []) 10 True False [] =
       Some (Inr (Stack []), [Alloc 0, Unpack, Alloc 0, EnterWhile, Pack])
   \<and> map_option fst (foldl_op (Fn2 tadd) (Stack []) None 10 True False []) = Some (Inl IndexError)"
proof -
  have c: "callable (Fn1 tsquare)" and c': "callable (Fn2 tadd)"
    by (simp_all add: callable_def)
  show ?thesis
    using c c' map_fn_empty_input [OF c c', of 10 True False "[]"] by simp
qed

end
